theory Spec2Isabelle
  imports Complex_Main "HOL-Library.Multiset"
begin

section \<open>Python values used by the typing test\<close>

text \<open>
  A Python \<open>str\<close> is a sequence of Unicode code points; \<open>len\<close>, \<open>zip\<close> and indexing
  count code points, so a string is a list of code points. Python floats are modelled
  as exact rationals: every arithmetic step of the source is one rational operation.
\<close>

type_synonym pystr = "nat list"

definition str :: "string \<Rightarrow> pystr" where
  "str s = map of_char s"

text \<open>The code points for which \<open>str.isspace\<close> holds; \<open>split()\<close> and \<open>strip()\<close> use them.\<close>

definition py_isspace :: "nat \<Rightarrow> bool" where
  "py_isspace c =
     ((9 \<le> c \<and> c \<le> 13) \<or> (28 \<le> c \<and> c \<le> 32) \<or> c = 133 \<or> c = 160 \<or> c = 5760
      \<or> (8192 \<le> c \<and> c \<le> 8202) \<or> c = 8232 \<or> c = 8233 \<or> c = 8239 \<or> c = 8287
      \<or> c = 12288)"

text \<open>
  \<open>s.split()\<close> with no separator: one left-to-right scan, runs of whitespace separate
  the words and no empty word is produced. \<open>w\<close> is the word read so far.
\<close>

fun split_scan :: "pystr \<Rightarrow> pystr \<Rightarrow> pystr list" where
  "split_scan w [] = (if w = [] then [] else [w])"
| "split_scan w (c # cs) =
     (if py_isspace c then (if w = [] then split_scan [] cs else w # split_scan [] cs)
      else split_scan (w @ [c]) cs)"

definition py_split :: "pystr \<Rightarrow> pystr list" where
  "py_split s = split_scan [] s"

definition py_strip :: "pystr \<Rightarrow> pystr" where
  "py_strip s = rev (dropWhile py_isspace (rev (dropWhile py_isspace s)))"

datatype exn =
    TypeError
  | ValueError
  | UnboundLocalError
  | FileNotFoundError
  | JSONDecodeError
  | OtherException string

text \<open>
  What a call does: it returns a value, an exception leaves it, or it is still inside the
  modal name dialog because the user has given no further answer.
\<close>

datatype 'a outcome = Returns 'a | Raises exn | Blocked

section \<open>score\_manager.py\<close>

record score_record =
  name :: pystr
  score :: rat
  accuracy :: rat
  date :: string

text \<open>
  \<open>high_scores\<close> is the attribute of the class; \<open>stored\<close> is the content of the JSON file at
  \<open>filepath\<close> (\<open>None\<close>: no file); \<open>printed\<close> collects what the manager prints.
\<close>

record score_manager =
  high_scores :: "score_record list"
  stored :: "score_record list option"
  printed :: "string list"

text \<open>
  \<open>load_scores\<close>: the argument is what the body of the \<open>try\<close> does, that is \<open>open\<close> followed
  by \<open>json.load\<close>: it raises or yields the parsed list. The three handlers follow in the
  source's order; the last one catches every other \<open>Exception\<close>.
\<close>

definition load_scores ::
    "exn + score_record list \<Rightarrow> (score_record list) outcome \<times> string list" where
  "load_scores body =
     (case body of
        Inr loaded \<Rightarrow> (Returns loaded, [])
      | Inl FileNotFoundError \<Rightarrow> (Returns [], [])
      | Inl JSONDecodeError \<Rightarrow> (Returns [], [''Corrupt high score file! Starting fresh.''])
      | Inl e \<Rightarrow>
          (Returns [], [''Failed to load high scores due to an unexpected error'']))"

text \<open>
  \<open>save_scores\<close>: \<open>writable\<close> says whether \<open>open(filepath, 'w')\<close> and \<open>json.dump\<close> succeed;
  a failure is caught and printed.
\<close>

definition save_scores :: "bool \<Rightarrow> score_manager \<Rightarrow> score_manager" where
  "save_scores writable m =
     (if writable then m\<lparr>stored := Some (high_scores m)\<rparr>
      else m\<lparr>printed := printed m @ [''Failed to save high scores due to an unexpected error'']\<rparr>)"

text \<open>
  \<open>list.sort(key=..., reverse=True)\<close>: a stable sort into descending order of the key;
  records with equal keys keep their order.
\<close>

definition sort_reverse :: "('a \<Rightarrow> rat) \<Rightarrow> 'a list \<Rightarrow> 'a list" where
  "sort_reverse key xs = rev (sort_key key (rev xs))"

text \<open>\<open>today\<close> is \<open>datetime.now().strftime("%Y-%m-%d")\<close>.\<close>

definition add_score ::
    "string \<Rightarrow> bool \<Rightarrow> pystr \<Rightarrow> rat \<Rightarrow> rat \<Rightarrow> score_manager \<Rightarrow> score_manager" where
  "add_score today writable nm sc acc m =
     (let new_score = \<lparr>name = nm, score = sc, accuracy = acc, date = today\<rparr>;
          m1 = m\<lparr>high_scores := high_scores m @ [new_score]\<rparr>;
          m2 = m1\<lparr>high_scores := sort_reverse score (high_scores m1)\<rparr>;
          m3 = m2\<lparr>high_scores := take 10 (high_scores m2)\<rparr>
      in save_scores writable m3)"

definition get_top_scores :: "score_manager \<Rightarrow> score_record list" where
  "get_top_scores m = high_scores m"

section \<open>typing\_test.py\<close>

datatype widget_state = NORMAL | DISABLED

datatype timer_text = Time_Left int | Times_Up

datatype callback = Update_Timer | End_Test_Programmatically

text \<open>
  The object and the widgets it drives. \<open>display_text\<close> and \<open>input_field\<close> are the contents
  of the two widgets; a label holds the number it shows (\<open>None\<close>: the initial dash);
  \<open>scheduled\<close> are the pending \<open>after\<close> calls (identifier, delay in ms, callback);
  \<open>score_windows\<close> are the high score tables shown; \<open>stdout\<close> is what was printed.
\<close>

record typing_test =
  display_text :: pystr
  display_state :: widget_state
  input_field :: pystr
  input_state :: widget_state
  input_focus :: bool
  return_bound :: bool
  speed_label :: "rat option"
  accuracy_label :: "rat option"
  timer_label :: timer_text
  manager :: score_manager
  start_time :: "rat option"
  end_time :: "rat option"
  timer_update_id :: "nat option"
  test_ended :: bool
  remaining_time :: int
  scheduled :: "(nat \<times> nat \<times> callback) list"
  next_id :: nat
  score_windows :: "score_record list list"
  stdout :: "string list"

text \<open>
  What a call of \<open>end\<close> meets outside the object: the clock, the date, the answers the user
  gives to the successive name dialogs (\<open>None\<close>: cancelled), and whether the score file can
  be written.
\<close>

record env =
  now :: rat
  today_str :: string
  answers :: "pystr option list"
  writable_file :: bool

definition init :: "score_manager \<Rightarrow> typing_test" where
  "init m =
     \<lparr>display_text = [], display_state = DISABLED, input_field = [], input_state = DISABLED,
      input_focus = False, return_bound = False, speed_label = None, accuracy_label = None,
      timer_label = Time_Left 60, manager = m, start_time = None, end_time = None,
      timer_update_id = None, test_ended = False, remaining_time = 60, scheduled = [],
      next_id = 0, score_windows = [], stdout = []\<rparr>"

text \<open>\<open>widget.get('1.0', tk.END)\<close>: the content of the text widget and Tk's final newline.\<close>

definition display_get :: "typing_test \<Rightarrow> pystr" where
  "display_get s = display_text s @ [10]"

text \<open>\<open>entry.delete(0, tk.END)\<close>: a disabled entry ignores it.\<close>

definition input_delete :: "typing_test \<Rightarrow> typing_test" where
  "input_delete s = (if input_state s = DISABLED then s else s\<lparr>input_field := []\<rparr>)"

definition after :: "nat \<Rightarrow> callback \<Rightarrow> typing_test \<Rightarrow> nat \<times> typing_test" where
  "after ms cb s =
     (next_id s, s\<lparr>scheduled := scheduled s @ [(next_id s, ms, cb)], next_id := next_id s + 1\<rparr>)"

text \<open>\<open>after_cancel\<close> of tkinter raises \<open>ValueError\<close> when the identifier is \<open>None\<close>.\<close>

definition after_cancel :: "nat option \<Rightarrow> typing_test \<Rightarrow> unit outcome \<times> typing_test" where
  "after_cancel ident s =
     (case ident of
        None \<Rightarrow> (Raises ValueError, s)
      | Some i \<Rightarrow> (Returns (), s\<lparr>scheduled := filter (\<lambda>e. fst e \<noteq> i) (scheduled s)\<rparr>))"

text \<open>
  \<open>calculate_speed(self, typed_text)\<close>. Subtracting with a time that is still \<open>None\<close> raises
  \<open>TypeError\<close>.
\<close>

definition calculate_speed :: "pystr \<Rightarrow> typing_test \<Rightarrow> rat outcome \<times> typing_test" where
  "calculate_speed typed_text s =
     (case (end_time s, start_time s) of
        (Some e, Some b) \<Rightarrow>
          (let elapsed_time = max (e - b) 1;
               elapsed_minutes = elapsed_time / 60;
               word_count = length (py_split typed_text);
               wpm = of_nat word_count / elapsed_minutes
           in (Returns wpm, s\<lparr>speed_label := Some wpm\<rparr>))
      | _ \<Rightarrow> (Raises TypeError, s))"

text \<open>
  A call \<open>self.calculate_speed(a1, ..., an)\<close>: Python binds the positional arguments to
  the one parameter \<open>typed_text\<close> and raises \<open>TypeError\<close>, before the body runs, when their
  number is not one.
\<close>

definition call_calculate_speed ::
    "pystr list \<Rightarrow> typing_test \<Rightarrow> rat outcome \<times> typing_test" where
  "call_calculate_speed args s =
     (case args of [typed_text] \<Rightarrow> calculate_speed typed_text s | _ \<Rightarrow> (Raises TypeError, s))"

text \<open>\<open>calculate_accuracy(self, typed_text, original_text)\<close>; \<open>matches\<close> sums booleans over \<open>zip\<close>.\<close>

definition matches_of :: "pystr \<Rightarrow> pystr \<Rightarrow> int" where
  "matches_of typed_text original_text =
     sum_list (map (\<lambda>(typed_char, original_char). if typed_char = original_char then 1 else 0)
                   (zip typed_text original_text))"

definition calculate_accuracy :: "pystr \<Rightarrow> pystr \<Rightarrow> typing_test \<Rightarrow> rat \<times> typing_test" where
  "calculate_accuracy typed_text original_text s =
     (if original_text = [] then (0, s)
      else
        (let matches = matches_of typed_text original_text;
             acc = of_int matches / of_nat (length original_text) * 100
         in (acc, s\<lparr>accuracy_label := Some acc\<rparr>)))"

text \<open>
  \<open>show_high_scores\<close>: one window with the table. The loop variable \<open>row\<close> is read after
  the loop, so an empty table raises \<open>UnboundLocalError\<close>.
\<close>

definition show_high_scores :: "typing_test \<Rightarrow> unit outcome \<times> typing_test" where
  "show_high_scores s =
     (let top_scores = get_top_scores (manager s)
      in if top_scores = [] then (Raises UnboundLocalError, s)
         else (Returns (), s\<lparr>score_windows := score_windows s @ [top_scores]\<rparr>))"

text \<open>
  The name loop of \<open>end\<close> (\<open>while not name\<close>): each dialog consumes one answer; a cancelled
  dialog ends \<open>end\<close>, an empty string asks again, any other string is the name.
\<close>

datatype prompt_result = Named pystr | Cancelled | Unanswered

fun ask_name :: "pystr option list \<Rightarrow> prompt_result" where
  "ask_name [] = Unanswered"
| "ask_name (None # rest) = Cancelled"
| "ask_name (Some nm # rest) = (if nm = [] then ask_name rest else Named nm)"

text \<open>The part of \<open>end\<close> from the name loop on (lines 96 to 116).\<close>

definition end_record :: "env \<Rightarrow> rat \<Rightarrow> rat \<Rightarrow> typing_test \<Rightarrow> unit outcome \<times> typing_test" where
  "end_record ev calculated_speed calculated_accuracy s =
     (case ask_name (answers ev) of
        Unanswered \<Rightarrow> (Blocked, s)
      | Cancelled \<Rightarrow> (Returns (), s)
      | Named nm \<Rightarrow>
          (let s1 = s\<lparr>manager := add_score (today_str ev) (writable_file ev) nm
                                     calculated_speed calculated_accuracy (manager s)\<rparr>;
               s2 = input_delete s1;
               s3 = s2\<lparr>input_state := DISABLED\<rparr>;
               s4 = s3\<lparr>remaining_time := 60\<rparr>;
               s5 = s4\<lparr>timer_label := Time_Left 60\<rparr>
           in case after_cancel (timer_update_id s5) s5 of
                (Returns u, s6) \<Rightarrow> show_high_scores s6
              | (r, s6) \<Rightarrow> (r, s6)))"

text \<open>
  \<open>end\<close> (the name is a keyword here). Line 93 calls \<open>calculate_speed\<close> with two arguments.
\<close>

definition end_method :: "env \<Rightarrow> typing_test \<Rightarrow> unit outcome \<times> typing_test" where
  "end_method ev s =
     (if test_ended s then (Returns (), s)
      else
        (let s1 = s\<lparr>test_ended := True\<rparr>;
             s2 = s1\<lparr>end_time := Some (now ev)\<rparr>;
             typed_text = input_field s2;
             original_text = py_strip (display_get s2)
         in case call_calculate_speed [typed_text, original_text] s2 of
              (Returns calculated_speed, s3) \<Rightarrow>
                (case calculate_accuracy typed_text original_text s3 of
                   (calculated_accuracy, s4) \<Rightarrow>
                     end_record ev calculated_speed calculated_accuracy s4)
            | (Raises e, s3) \<Rightarrow> (Raises e, s3)
            | (Blocked, s3) \<Rightarrow> (Blocked, s3)))"

definition end_test :: "env \<Rightarrow> typing_test \<Rightarrow> unit outcome \<times> typing_test" where
  "end_test ev s = end_method ev s"

definition end_test_programmatically :: "env \<Rightarrow> typing_test \<Rightarrow> unit outcome \<times> typing_test" where
  "end_test_programmatically ev s = end_method ev s"

definition update_timer :: "env \<Rightarrow> typing_test \<Rightarrow> unit outcome \<times> typing_test" where
  "update_timer ev s =
     (if remaining_time s \<le> 0
      then end_test_programmatically ev (s\<lparr>timer_label := Times_Up\<rparr>)
      else
        (let s1 = s\<lparr>timer_label := Time_Left (remaining_time s)\<rparr>;
             s2 = s1\<lparr>remaining_time := remaining_time s1 - 1\<rparr>
         in case after 1000 Update_Timer s2 of
              (ident, s3) \<Rightarrow> (Returns (), s3\<lparr>timer_update_id := Some ident\<rparr>)))"

text \<open>
  \<open>start_test(self, text)\<close>: the parameter is overwritten at once by the stripped content of
  the display widget.
\<close>

definition start_test :: "env \<Rightarrow> pystr \<Rightarrow> typing_test \<Rightarrow> unit outcome \<times> typing_test" where
  "start_test ev text0 s =
     (let text1 = py_strip (display_get s)
      in if text1 = [] then (Returns (), s\<lparr>stdout := stdout s @ [''No text loaded for the test.'']\<rparr>)
         else
           (let s1 = s\<lparr>test_ended := False\<rparr>;
                s2 = s1\<lparr>display_text := text1, display_state := DISABLED\<rparr>;
                s3 = input_delete s2;
                s4 = s3\<lparr>input_state := NORMAL, input_focus := True, return_bound := True\<rparr>;
                s5 = s4\<lparr>start_time := Some (now ev)\<rparr>;
                s6 = snd (after 60000 End_Test_Programmatically s5);
                s7 = s6\<lparr>remaining_time := 60\<rparr>
            in update_timer ev s7))"

text \<open>
  The phase of the session, read from the attributes: ended once \<open>test_ended\<close> is set, idle
  before the first start, running in between.
\<close>

datatype phase = Idle | Running | Ended

definition phase_of :: "typing_test \<Rightarrow> phase" where
  "phase_of s = (if test_ended s then Ended else if start_time s = None then Idle else Running)"

section \<open>The positional comparison of the specification\<close>

text \<open>
  The number of positions \<open>i\<close> below the shorter length at which the two texts carry the
  same character.
\<close>

definition positional_matches :: "pystr \<Rightarrow> pystr \<Rightarrow> nat" where
  "positional_matches typed_text original_text =
     length (filter (\<lambda>i. typed_text ! i = original_text ! i)
               [0 ..< min (length typed_text) (length original_text)])"

definition descending :: "score_record list \<Rightarrow> bool" where
  "descending xs = sorted_wrt (\<lambda>a b. score a \<ge> score b) xs"

text \<open>
  The number of words of the specification: the positions at which a word begins, a
  character that is not whitespace and follows whitespace or the start of the text.
\<close>

fun count_words :: "bool \<Rightarrow> pystr \<Rightarrow> nat" where
  "count_words after_space [] = 0"
| "count_words after_space (c # cs) =
     (if \<not> py_isspace c \<and> after_space then 1 else 0) + count_words (py_isspace c) cs"

definition wordCount :: "pystr \<Rightarrow> nat" where
  "wordCount s = count_words True s"

section \<open>A session used in the examples\<close>

definition empty_manager :: score_manager where
  "empty_manager = \<lparr>high_scores = [], stored = None, printed = []\<rparr>"

definition example_env :: env where
  "example_env =
     \<lparr>now = 30, today_str = ''2024-05-01'', answers = [Some (str ''Ann'')], writable_file = True\<rparr>"

definition cancel_env :: env where
  "cancel_env = example_env\<lparr>answers := [Some [], None]\<rparr>"

text \<open>
  A test started at time 0 on the text \<open>hello there\<close>, into which the user has typed
  \<open>hello world\<close>.
\<close>

definition example_running :: typing_test where
  "example_running =
     (snd (start_test (example_env\<lparr>now := 0\<rparr>) []
             ((init empty_manager)\<lparr>display_text := str ''hello there''\<rparr>)))
       \<lparr>input_field := str ''hello world''\<rparr>"

section \<open>Facts about the text functions and the example session\<close>

lemma str_hello_world: "str ''hello world'' = [104,101,108,108,111,32,119,111,114,108,100]"
  by (simp add: str_def)

lemma str_hello_there: "str ''hello there'' = [104,101,108,108,111,32,116,104,101,114,101]"
  by (simp add: str_def)

lemma sum_indicator_length:
  "sum_list (map (\<lambda>(a, b). if a = b then 1 else 0) zs)
     = int (length (filter (\<lambda>(a, b). a = b) zs))"
  by (induction zs) auto

lemma filter_index_length:
  "length (filter (\<lambda>i. P (zs ! i)) [0 ..< length zs]) = length (filter P zs)"
proof -
  have "length (filter P (map (\<lambda>i. zs ! i) [0 ..< length zs])) = length (filter P zs)"
    by (simp add: map_nth)
  then show ?thesis by (simp add: filter_map comp_def)
qed

lemma positional_matches_zip:
  "positional_matches xs ys = length (filter (\<lambda>(a, b). a = b) (zip xs ys))"
proof -
  have "filter (\<lambda>i. xs ! i = ys ! i) [0 ..< length (zip xs ys)]
        = filter (\<lambda>i. (\<lambda>(a, b). a = b) (zip xs ys ! i)) [0 ..< length (zip xs ys)]"
    by (rule filter_cong) auto
  then show ?thesis
    unfolding positional_matches_def
    using filter_index_length [of "\<lambda>(a, b). a = b" "zip xs ys"] by simp
qed

lemma matches_of_positional: "matches_of xs ys = int (positional_matches xs ys)"
  by (simp add: matches_of_def sum_indicator_length positional_matches_zip)

lemma zip_take_right: "zip (take (length ys) xs) ys = zip xs ys"
proof (induction xs arbitrary: ys)
  case Nil
  show ?case by simp
next
  case (Cons x xs)
  show ?case by (cases ys) (simp_all add: Cons.IH)
qed

lemma matches_of_take: "matches_of (take (length ys) xs) ys = matches_of xs ys"
  by (simp add: matches_of_def zip_take_right)

lemma matches_of_self: "matches_of xs xs = int (length xs)"
  by (induction xs) (simp_all add: matches_of_def)

lemma matches_of_Nil: "matches_of [] ys = 0"
  by (simp add: matches_of_def)

lemma accuracy_value:
  "ys \<noteq> [] \<Longrightarrow>
     fst (calculate_accuracy xs ys s) = of_int (matches_of xs ys) / of_nat (length ys) * 100"
  by (simp add: calculate_accuracy_def Let_def)

lemma accuracy_empty: "calculate_accuracy xs [] s = (0, s)"
  by (simp add: calculate_accuracy_def)

lemma split_scan_length:
  "length (split_scan w cs) = (if w = [] then count_words True cs else 1 + count_words False cs)"
  by (induction w cs rule: split_scan.induct) auto

lemma py_split_wordCount: "length (py_split s) = wordCount s"
  by (simp add: py_split_def wordCount_def split_scan_length)

lemma hello_world_words: "wordCount (str ''hello world'') = 2"
  by (simp add: wordCount_def str_hello_world py_isspace_def)

lemma strip_hello_there:
  "py_strip (display_get ((init empty_manager)\<lparr>display_text := str ''hello there''\<rparr>))
     = str ''hello there''"
  by (simp add: str_hello_there py_strip_def display_get_def py_isspace_def init_def)

lemma example_running_start: "start_time example_running = Some 0"
  unfolding example_running_def start_test_def Let_def strip_hello_there
  by (simp add: str_hello_there update_timer_def after_def input_delete_def init_def
      example_env_def Let_def)

lemma example_running_not_ended: "\<not> test_ended example_running"
  unfolding example_running_def start_test_def Let_def strip_hello_there
  by (simp add: str_hello_there update_timer_def after_def input_delete_def init_def
      example_env_def Let_def)

lemma example_running_manager: "manager example_running = empty_manager"
  unfolding example_running_def start_test_def Let_def strip_hello_there
  by (simp add: str_hello_there update_timer_def after_def input_delete_def init_def
      example_env_def Let_def)

lemma example_running_phase: "phase_of example_running = Running"
  by (simp add: phase_of_def example_running_start example_running_not_ended)

section \<open>Accuracy and speed\<close>

text \<open>
  C1. \<open>calculate_accuracy\<close> returns 0 for an empty original text; otherwise it returns
  the number of positions below the shorter length at which typed and original text
  agree, divided by the length of the original text, times 100. What is typed beyond the
  length of the original text does not change the result. For \<open>hello world\<close> typed
  against \<open>hello there\<close> the result is the value of that formula, 600/11.
\<close>

theorem calculate_accuracy_positional:
  "fst (calculate_accuracy typed_text [] s) = 0
   \<and> (original_text \<noteq> [] \<longrightarrow>
        fst (calculate_accuracy typed_text original_text s)
          = of_nat (positional_matches typed_text original_text)
              / of_nat (length original_text) * 100)
   \<and> calculate_accuracy (take (length original_text) typed_text) original_text s
        = calculate_accuracy typed_text original_text s
   \<and> fst (calculate_accuracy (str ''hello world'') (str ''hello there'') s)
        = of_nat (positional_matches (str ''hello world'') (str ''hello there''))
            / of_nat (length (str ''hello there'')) * 100
   \<and> fst (calculate_accuracy (str ''hello world'') (str ''hello there'') s) = 600 / 11"
proof -
  have there: "str ''hello there'' \<noteq> []"
    by (simp add: str_hello_there)
  have six: "matches_of (str ''hello world'') (str ''hello there'') = 6"
    by (simp add: matches_of_def str_hello_world str_hello_there)
  have len: "length (str ''hello there'') = 11"
    by (simp add: str_def)
  have a: "fst (calculate_accuracy typed_text [] s) = 0"
    by (simp add: accuracy_empty)
  have b: "original_text \<noteq> [] \<longrightarrow>
        fst (calculate_accuracy typed_text original_text s)
          = of_nat (positional_matches typed_text original_text)
              / of_nat (length original_text) * 100"
    by (simp add: accuracy_value matches_of_positional)
  have c: "calculate_accuracy (take (length original_text) typed_text) original_text s
        = calculate_accuracy typed_text original_text s"
    by (simp add: calculate_accuracy_def matches_of_take)
  have d: "fst (calculate_accuracy (str ''hello world'') (str ''hello there'') s)
        = of_nat (positional_matches (str ''hello world'') (str ''hello there''))
            / of_nat (length (str ''hello there'')) * 100"
    using there by (simp add: accuracy_value matches_of_positional)
  have e: "fst (calculate_accuracy (str ''hello world'') (str ''hello there'') s) = 600 / 11"
    using there by (simp add: accuracy_value six len)
  from a b c d e show ?thesis by blast
qed

theorem calculate_accuracy_positional_witness:
  "str ''hello there'' \<noteq> []
   \<and> fst (calculate_accuracy (str ''hello world again'') (str ''hello there'')
            (init empty_manager))
       = of_nat (positional_matches (str ''hello world again'') (str ''hello there''))
           / of_nat (length (str ''hello there'')) * 100"
proof -
  have h: "str ''hello there'' \<noteq> []"
    by (simp add: str_hello_there)
  show ?thesis
    using h calculate_accuracy_positional
      [of "str ''hello world again''" "init empty_manager" "str ''hello there''"]
    by blast
qed

text \<open>
  C9. A non-empty text typed exactly has accuracy 100; typing nothing against a non-empty
  original text has accuracy 0; any text against the empty original text has accuracy 0.
\<close>

theorem calculate_accuracy_extremes:
  "(t \<noteq> [] \<longrightarrow> fst (calculate_accuracy t t s) = 100)
   \<and> (original_text \<noteq> [] \<longrightarrow> fst (calculate_accuracy [] original_text s) = 0)
   \<and> fst (calculate_accuracy x [] s) = 0"
  by (simp add: accuracy_value accuracy_empty matches_of_self matches_of_Nil)

theorem calculate_accuracy_extremes_witness:
  "str ''abc'' \<noteq> []
   \<and> fst (calculate_accuracy (str ''abc'') (str ''abc'') (init empty_manager)) = 100
   \<and> fst (calculate_accuracy [] (str ''abc'') (init empty_manager)) = 0"
proof -
  have h: "str ''abc'' \<noteq> []"
    by (simp add: str_def)
  show ?thesis
    using h calculate_accuracy_extremes [of "str ''abc''" "init empty_manager" "str ''abc''"]
    by blast
qed

text \<open>
  C2. With a start and an end time, the end not before the start, \<open>calculate_speed\<close>
  returns the number of whitespace-separated words of the typed text divided by the
  elapsed minutes, where the elapsed time is at least one second; the divisor is positive,
  also when both times are equal.
\<close>

theorem calculate_speed_formula:
  assumes "start_time s = Some b" and "end_time s = Some e" and "b \<le> e"
  shows "fst (calculate_speed typed_text s)
           = Returns (of_nat (wordCount typed_text) / (max (e - b) 1 / 60))
         \<and> length (py_split typed_text) = wordCount typed_text
         \<and> max (e - b) 1 / 60 > 0
         \<and> (e = b \<longrightarrow> max (e - b) 1 = 1)"
  using assms by (simp add: calculate_speed_def Let_def py_split_wordCount)

theorem calculate_speed_formula_witness:
  "start_time (example_running\<lparr>end_time := Some 0\<rparr>) = Some 0
   \<and> end_time (example_running\<lparr>end_time := Some 0\<rparr>) = Some 0
   \<and> (0::rat) \<le> 0
   \<and> fst (calculate_speed (str ''hello world'') (example_running\<lparr>end_time := Some 0\<rparr>))
       = Returns 120"
proof -
  have b: "start_time (example_running\<lparr>end_time := Some 0\<rparr>) = Some 0"
    by (simp add: example_running_start)
  have e: "end_time (example_running\<lparr>end_time := Some 0\<rparr>) = Some 0"
    by simp
  have le: "(0::rat) \<le> 0"
    by simp
  show ?thesis
    using b e le calculate_speed_formula [OF b e le, of "str ''hello world''"]
    by (simp add: hello_world_words)
qed

section \<open>Facts about the score manager\<close>

lemma sort_reverse_descending: "sorted_wrt (\<lambda>a b. key a \<ge> key b) (sort_reverse key xs)"
proof -
  have "sorted (map key (sort_key key (rev xs)))"
    by (rule sorted_sort_key)
  then have "sorted_wrt (\<lambda>a b. key a \<le> key b) (sort_key key (rev xs))"
    by (simp add: sorted_wrt_map)
  then show ?thesis
    by (simp add: sort_reverse_def sorted_wrt_rev)
qed

lemma set_sort_reverse: "set (sort_reverse key xs) = set xs"
  by (simp add: sort_reverse_def)

lemma mset_sort_reverse: "mset (sort_reverse key xs) = mset xs"
  by (simp add: sort_reverse_def)

lemma sort_reverse_stable:
  "filter (\<lambda>r. key r = k) (sort_reverse key xs) = filter (\<lambda>r. key r = k) xs"
proof -
  have "filter (\<lambda>r. key r = k) (sort_reverse key xs)
          = rev (filter (\<lambda>r. key r = k) (sort_key key (rev xs)))"
    by (simp add: sort_reverse_def rev_filter)
  also have "\<dots> = rev (filter (\<lambda>r. key r = k) (rev xs))"
    by (simp only: sort_key_stable)
  also have "\<dots> = filter (\<lambda>r. key r = k) xs"
    by (simp add: rev_filter)
  finally show ?thesis .
qed

lemma descending_split:
  assumes "sorted_wrt (\<lambda>a b. key a \<ge> key b) ys"
  shows "list_all (\<lambda>d. list_all (\<lambda>k. key d \<le> key k) (take n ys)) (drop n ys)"
proof -
  have "sorted_wrt (\<lambda>a b. key a \<ge> key b) (take n ys @ drop n ys)"
    using assms by simp
  then have "\<forall>x\<in>set (take n ys). \<forall>y\<in>set (drop n ys). key x \<ge> key y"
    by (simp only: sorted_wrt_append) blast
  then show ?thesis
    by (auto simp: list_all_iff)
qed

lemma add_score_high_scores:
  "high_scores (add_score today writable nm sc acc m)
     = take 10 (sort_reverse score
         (high_scores m @ [\<lparr>name = nm, score = sc, accuracy = acc, date = today\<rparr>]))"
  by (simp add: add_score_def save_scores_def Let_def)

lemma add_score_names:
  assumes "list_all (\<lambda>r. name r \<noteq> []) (high_scores m)" and "nm \<noteq> []"
  shows "list_all (\<lambda>r. name r \<noteq> []) (high_scores (add_score today writable nm sc acc m))"
proof -
  have "set (high_scores (add_score today writable nm sc acc m))
          \<subseteq> set (high_scores m) \<union> {\<lparr>name = nm, score = sc, accuracy = acc, date = today\<rparr>}"
    using set_take_subset [of 10 "sort_reverse score
         (high_scores m @ [\<lparr>name = nm, score = sc, accuracy = acc, date = today\<rparr>])"]
    by (simp add: add_score_high_scores set_sort_reverse)
  with assms show ?thesis
    by (auto simp: list_all_iff)
qed

section \<open>Facts about the end of a test\<close>

lemma end_method_first:
  "\<not> test_ended s \<Longrightarrow>
     end_method ev s = (Raises TypeError, s\<lparr>test_ended := True, end_time := Some (now ev)\<rparr>)"
  by (simp add: end_method_def call_calculate_speed_def Let_def)

lemma end_method_again: "test_ended s \<Longrightarrow> end_method ev s = (Returns (), s)"
  by (simp add: end_method_def)

lemma ask_name_Named: "ask_name ans = Named nm \<Longrightarrow> nm \<noteq> []"
  by (induction ans rule: ask_name.induct) (auto split: if_splits)

lemma ask_name_empty_again: "ask_name (replicate k (Some []) @ rest) = ask_name rest"
  by (induction k) simp_all

lemma end_record_cancelled:
  "ask_name (answers ev) = Cancelled \<Longrightarrow> end_record ev sp ac s = (Returns (), s)"
  by (simp add: end_record_def)

lemma end_record_unanswered:
  "ask_name (answers ev) = Unanswered \<Longrightarrow> end_record ev sp ac s = (Blocked, s)"
  by (simp add: end_record_def)

lemma end_record_named:
  "ask_name (answers ev) = Named nm \<Longrightarrow>
     manager (snd (end_record ev sp ac s))
       = add_score (today_str ev) (writable_file ev) nm sp ac (manager s)"
  by (simp add: end_record_def Let_def after_cancel_def show_high_scores_def input_delete_def
      split: option.splits)

lemma example_answer: "ask_name (answers example_env) = Named (str ''Ann'')"
  by (simp add: example_env_def str_def)

lemma cancel_answer: "ask_name (answers cancel_env) = Cancelled"
  by (simp add: cancel_env_def)

lemma phase_running_not_ended: "phase_of s = Running \<Longrightarrow> \<not> test_ended s"
  by (simp add: phase_of_def split: if_splits)

lemma end_method_manager: "manager (snd (end_method ev s)) = manager s"
  by (cases "test_ended s") (simp_all add: end_method_first end_method_again)


section \<open>The score manager\<close>

text \<open>
  C5. \<open>add_score\<close> appends the record, sorts the whole list into descending order of the
  score and keeps the first 10. Said without the sorting function: the new list is the
  first 10 of a rearrangement of the old list with the record appended that is in
  descending order of the score and keeps records of equal score in their order; no
  record is lost or duplicated before the cut, so the new list has
  \<open>min 10 (length + 1)\<close> records, and every record cut off has a score no higher than
  any record kept. Hence the list has at most 10 records and is in descending order of
  the score. From the empty list, adding Alice with 80 and then Bob with 90 gives Bob
  before Alice.
\<close>

theorem add_score_invariant:
  "high_scores (add_score today writable nm sc acc m)
     = take 10 (sort_reverse score
         (high_scores m @ [\<lparr>name = nm, score = sc, accuracy = acc, date = today\<rparr>]))
   \<and> length (high_scores (add_score today writable nm sc acc m)) \<le> 10
   \<and> descending (high_scores (add_score today writable nm sc acc m))
   \<and> high_scores (add_score d2 w2 (str ''Bob'') 90 92
        (add_score d1 w1 (str ''Alice'') 80 95 (m\<lparr>high_scores := []\<rparr>)))
       = [\<lparr>name = str ''Bob'', score = 90, accuracy = 92, date = d2\<rparr>,
          \<lparr>name = str ''Alice'', score = 80, accuracy = 95, date = d1\<rparr>]
   \<and> length (high_scores (add_score today writable nm sc acc m))
       = min 10 (length (high_scores m) + 1)
   \<and> (\<exists>ys. mset ys
              = mset (high_scores m @ [\<lparr>name = nm, score = sc, accuracy = acc, date = today\<rparr>])
          \<and> descending ys
          \<and> (\<forall>k. filter (\<lambda>r. score r = k) ys
                 = filter (\<lambda>r. score r = k)
                     (high_scores m @ [\<lparr>name = nm, score = sc, accuracy = acc, date = today\<rparr>]))
          \<and> high_scores (add_score today writable nm sc acc m) = take 10 ys)
   \<and> (\<exists>dropped.
          mset (high_scores (add_score today writable nm sc acc m) @ dropped)
            = mset (high_scores m @ [\<lparr>name = nm, score = sc, accuracy = acc, date = today\<rparr>])
          \<and> list_all (\<lambda>d. list_all (\<lambda>k. score d \<le> score k)
                              (high_scores (add_score today writable nm sc acc m))) dropped)"
proof -
  let ?new = "\<lparr>name = nm, score = sc, accuracy = acc, date = today\<rparr>"
  let ?ys = "sort_reverse score (high_scores m @ [?new])"
  have r: "high_scores (add_score today writable nm sc acc m) = take 10 ?ys"
    by (rule add_score_high_scores)
  have len: "length ?ys = length (high_scores m) + 1"
    using mset_eq_length [OF mset_sort_reverse [of score "high_scores m @ [?new]"]] by simp
  have a: "length (high_scores (add_score today writable nm sc acc m)) \<le> 10"
    by (simp add: r)
  have b: "descending (high_scores (add_score today writable nm sc acc m))"
    unfolding descending_def r
    by (rule sorted_wrt_take) (rule sort_reverse_descending)
  have c: "high_scores (add_score d2 w2 (str ''Bob'') 90 92
        (add_score d1 w1 (str ''Alice'') 80 95 (m\<lparr>high_scores := []\<rparr>)))
       = [\<lparr>name = str ''Bob'', score = 90, accuracy = 92, date = d2\<rparr>,
          \<lparr>name = str ''Alice'', score = 80, accuracy = 95, date = d1\<rparr>]"
    by (simp add: add_score_high_scores sort_reverse_def)
  have d: "length (high_scores (add_score today writable nm sc acc m))
       = min 10 (length (high_scores m) + 1)"
    by (simp add: r len min.commute)
  have e: "\<exists>ys. mset ys = mset (high_scores m @ [?new])
          \<and> descending ys
          \<and> (\<forall>k. filter (\<lambda>r. score r = k) ys
                 = filter (\<lambda>r. score r = k) (high_scores m @ [?new]))
          \<and> high_scores (add_score today writable nm sc acc m) = take 10 ys"
  proof (intro exI conjI allI)
    show "mset ?ys = mset (high_scores m @ [?new])"
      by (rule mset_sort_reverse)
    show "descending ?ys"
      unfolding descending_def by (rule sort_reverse_descending)
    show "filter (\<lambda>r. score r = k) ?ys = filter (\<lambda>r. score r = k) (high_scores m @ [?new])"
      for k by (rule sort_reverse_stable)
    show "high_scores (add_score today writable nm sc acc m) = take 10 ?ys"
      by (rule r)
  qed
  have f: "\<exists>dropped.
          mset (high_scores (add_score today writable nm sc acc m) @ dropped)
            = mset (high_scores m @ [?new])
          \<and> list_all (\<lambda>d. list_all (\<lambda>k. score d \<le> score k)
                              (high_scores (add_score today writable nm sc acc m))) dropped"
  proof (intro exI conjI)
    have "mset (take 10 ?ys @ drop 10 ?ys) = mset ?ys"
      by simp
    then show "mset (high_scores (add_score today writable nm sc acc m) @ drop 10 ?ys)
            = mset (high_scores m @ [?new])"
      by (simp only: r mset_sort_reverse)
    show "list_all (\<lambda>d. list_all (\<lambda>k. score d \<le> score k)
             (high_scores (add_score today writable nm sc acc m))) (drop 10 ?ys)"
      unfolding r by (rule descending_split) (rule sort_reverse_descending)
  qed
  from r a b c d e f show ?thesis
    by blast
qed

text \<open>
  C6. \<open>load_scores\<close> always returns: whatever opening and parsing the file does, the
  result is a list, and it is the empty list whenever an exception was raised, in
  particular for a missing file.
\<close>

theorem load_scores_never_raises:
  "(\<exists>loaded. fst (load_scores body) = Returns loaded)
   \<and> fst (load_scores (Inl e)) = Returns []
   \<and> load_scores (Inl FileNotFoundError) = (Returns [], [])
   \<and> fst (load_scores (Inl JSONDecodeError)) = Returns []"
proof -
  have e: "fst (load_scores (Inl e)) = Returns []"
    by (cases e) (simp_all add: load_scores_def)
  have "\<exists>loaded. fst (load_scores body) = Returns loaded"
  proof (cases body)
    case (Inl x)
    then show ?thesis by (cases x) (simp_all add: load_scores_def)
  next
    case (Inr loaded)
    then show ?thesis by (simp add: load_scores_def)
  qed
  with e show ?thesis
    by (simp add: load_scores_def)
qed

section \<open>The life cycle of a test\<close>

text \<open>
  C7. \<open>start_test\<close> on an empty display text reports that no text is loaded and returns;
  apart from the printed line the object is unchanged: the phase stays what it was (an
  idle session stays idle), nothing is scheduled, and start time, remaining time, typed
  input and the state of the input field are as before.
\<close>

theorem start_test_no_text:
  assumes "display_text s = []"
  shows "start_test ev text0 s
           = (Returns (), s\<lparr>stdout := stdout s @ [''No text loaded for the test.'']\<rparr>)
         \<and> phase_of (snd (start_test ev text0 s)) = phase_of s
         \<and> scheduled (snd (start_test ev text0 s)) = scheduled s
         \<and> timer_update_id (snd (start_test ev text0 s)) = timer_update_id s
         \<and> start_time (snd (start_test ev text0 s)) = start_time s
         \<and> remaining_time (snd (start_test ev text0 s)) = remaining_time s
         \<and> input_field (snd (start_test ev text0 s)) = input_field s
         \<and> input_state (snd (start_test ev text0 s)) = input_state s"
proof -
  have "py_strip (display_get s) = []"
    using assms by (simp add: py_strip_def display_get_def py_isspace_def)
  then have "start_test ev text0 s
           = (Returns (), s\<lparr>stdout := stdout s @ [''No text loaded for the test.'']\<rparr>)"
    by (simp add: start_test_def)
  then show ?thesis
    by (simp add: phase_of_def)
qed

theorem start_test_no_text_witness:
  "display_text (init empty_manager) = []
   \<and> start_test example_env (str ''ignored'') (init empty_manager)
       = (Returns (), (init empty_manager)\<lparr>stdout := [''No text loaded for the test.'']\<rparr>)
   \<and> phase_of (snd (start_test example_env (str ''ignored'') (init empty_manager))) = Idle"
proof -
  have h: "display_text (init empty_manager) = []"
    by (simp add: init_def)
  have i: "phase_of (init empty_manager) = Idle"
    by (simp add: init_def phase_of_def)
  have o: "stdout (init empty_manager) = []"
    by (simp add: init_def)
  note r = start_test_no_text [OF h, of example_env "str ''ignored''", unfolded i o append_Nil]
  from h r show ?thesis
    by blast
qed

text \<open>
  C3. At the end of a running test, \<open>end\<close> should compute end time, speed and accuracy and
  return. On the running example session it does not: the call of \<open>calculate_speed\<close> with
  two arguments raises \<open>TypeError\<close>, which leaves \<open>end\<close>; neither label is updated.
\<close>

theorem end_raises_type_error:
  "phase_of example_running = Running
   \<and> fst (end_method example_env example_running) = Raises TypeError
   \<and> speed_label (snd (end_method example_env example_running)) = speed_label example_running
   \<and> accuracy_label (snd (end_method example_env example_running))
       = accuracy_label example_running"
  by (simp add: example_running_phase end_method_first [OF example_running_not_ended])

text \<open>
  C4. Two calls of \<open>end\<close> in a row on a running session should add exactly one record,
  the second call doing nothing. On the running example session, with a user ready to
  answer \<open>Ann\<close> to the name dialog, the first call raises \<open>TypeError\<close> at the call of
  \<open>calculate_speed\<close>, the second call returns at once and changes nothing, and the list of
  high scores is empty before and after: no record is added. The name dialog and the
  recording that follows it, run on the same session and answers, add the one record.
\<close>

theorem end_twice_records_nothing:
  "phase_of example_running = Running
   \<and> ask_name (answers example_env) = Named (str ''Ann'')
   \<and> fst (end_method example_env example_running) = Raises TypeError
   \<and> end_method example_env (snd (end_method example_env example_running))
       = (Returns (), snd (end_method example_env example_running))
   \<and> high_scores (manager example_running) = []
   \<and> high_scores (manager (snd (end_method example_env
        (snd (end_method example_env example_running))))) = []
   \<and> high_scores (manager (snd (end_record example_env 4 (600 / 11)
        (example_running\<lparr>test_ended := True, end_time := Some 30\<rparr>))))
       = [\<lparr>name = str ''Ann'', score = 4, accuracy = 600 / 11, date = ''2024-05-01''\<rparr>]"
proof -
  have first: "end_method example_env example_running
      = (Raises TypeError, example_running\<lparr>test_ended := True, end_time := Some (now example_env)\<rparr>)"
    by (rule end_method_first) (rule example_running_not_ended)
  have again: "end_method example_env (snd (end_method example_env example_running))
       = (Returns (), snd (end_method example_env example_running))"
    by (rule end_method_again) (simp add: first)
  have fields: "today_str example_env = ''2024-05-01''" "writable_file example_env = True"
    by (simp_all add: example_env_def)
  have one: "high_scores (manager (snd (end_record example_env 4 (600 / 11)
        (example_running\<lparr>test_ended := True, end_time := Some 30\<rparr>))))
       = [\<lparr>name = str ''Ann'', score = 4, accuracy = 600 / 11, date = ''2024-05-01''\<rparr>]"
    by (simp add: end_record_named [OF example_answer] fields example_running_manager
        add_score_high_scores empty_manager_def sort_reverse_def)
  from first again one show ?thesis
    by (simp add: example_running_phase example_answer end_method_manager
        example_running_manager empty_manager_def)
qed

text \<open>
  C8. When the user cancels the name dialog, the rest of \<open>end\<close> returns at once and changes
  nothing: no record is made, the list of high scores is as before and the session stays
  ended. For \<open>end\<close> as a whole on a running session, the high scores are unchanged and the
  session is ended afterwards.
\<close>

theorem end_cancelled_records_nothing:
  assumes "ask_name (answers ev) = Cancelled"
  shows "end_record ev sp ac s = (Returns (), s)
         \<and> manager (snd (end_record ev sp ac s)) = manager s
         \<and> (test_ended s \<longrightarrow> phase_of (snd (end_record ev sp ac s)) = Ended)
         \<and> (phase_of s0 = Running \<longrightarrow>
              manager (snd (end_method ev s0)) = manager s0
              \<and> phase_of (snd (end_method ev s0)) = Ended)"
proof -
  have a: "end_record ev sp ac s = (Returns (), s)"
    using assms by (rule end_record_cancelled)
  have b: "phase_of s0 = Running \<longrightarrow> phase_of (snd (end_method ev s0)) = Ended"
    by (auto dest!: phase_running_not_ended simp: end_method_first phase_of_def)
  from a b show ?thesis
    by (simp add: end_method_manager phase_of_def)
qed

theorem end_cancelled_records_nothing_witness:
  "ask_name (answers cancel_env) = Cancelled
   \<and> test_ended (example_running\<lparr>test_ended := True\<rparr>)
   \<and> phase_of example_running = Running
   \<and> end_record cancel_env 4 50 (example_running\<lparr>test_ended := True\<rparr>)
       = (Returns (), example_running\<lparr>test_ended := True\<rparr>)
   \<and> phase_of (snd (end_record cancel_env 4 50 (example_running\<lparr>test_ended := True\<rparr>))) = Ended
   \<and> manager (snd (end_method cancel_env example_running)) = manager example_running
   \<and> phase_of (snd (end_method cancel_env example_running)) = Ended"
proof -
  have c: "ask_name (answers cancel_env) = Cancelled"
    by (rule cancel_answer)
  have t: "test_ended (example_running\<lparr>test_ended := True\<rparr>)"
    by simp
  have h: "phase_of example_running = Running"
    by (rule example_running_phase)
  show ?thesis
    using c t h end_cancelled_records_nothing
      [OF c, of 4 50 "example_running\<lparr>test_ended := True\<rparr>" example_running]
    by blast
qed

text \<open>
  C10. The name loop asks again after an empty answer and stops recording only on a
  cancelled dialog; the name it yields is never empty, so \<open>add_score\<close> is called by \<open>end\<close>
  with a non-empty name only, and a list of high scores whose names are all non-empty
  stays so.
\<close>

theorem recorded_name_nonempty:
  assumes "list_all (\<lambda>r. name r \<noteq> []) (high_scores (manager s))"
  shows "(case ask_name (answers ev) of
            Named nm \<Rightarrow>
              nm \<noteq> []
              \<and> manager (snd (end_record ev sp ac s))
                  = add_score (today_str ev) (writable_file ev) nm sp ac (manager s)
          | Cancelled \<Rightarrow> end_record ev sp ac s = (Returns (), s)
          | Unanswered \<Rightarrow> end_record ev sp ac s = (Blocked, s))
         \<and> list_all (\<lambda>r. name r \<noteq> []) (high_scores (manager (snd (end_record ev sp ac s))))
         \<and> list_all (\<lambda>r. name r \<noteq> []) (high_scores (manager (snd (end_method ev s))))
         \<and> ask_name (replicate k (Some []) @ rest) = ask_name rest
         \<and> ask_name (replicate k (Some []) @ None # rest) = Cancelled
         \<and> ask_name (replicate k (Some []) @ []) = Unanswered"
proof -
  have a: "case ask_name (answers ev) of
            Named nm \<Rightarrow>
              nm \<noteq> []
              \<and> manager (snd (end_record ev sp ac s))
                  = add_score (today_str ev) (writable_file ev) nm sp ac (manager s)
          | Cancelled \<Rightarrow> end_record ev sp ac s = (Returns (), s)
          | Unanswered \<Rightarrow> end_record ev sp ac s = (Blocked, s)"
    by (simp add: ask_name_Named end_record_named end_record_cancelled end_record_unanswered
        split: prompt_result.split)
  have b: "list_all (\<lambda>r. name r \<noteq> []) (high_scores (manager (snd (end_record ev sp ac s))))"
  proof (cases "ask_name (answers ev)")
    case (Named nm)
    then show ?thesis
      using assms by (simp add: end_record_named add_score_names ask_name_Named)
  next
    case Cancelled
    then show ?thesis using assms by (simp add: end_record_cancelled)
  next
    case Unanswered
    then show ?thesis using assms by (simp add: end_record_unanswered)
  qed
  have c: "ask_name (replicate k (Some []) @ None # rest) = Cancelled"
    by (simp only: ask_name_empty_again ask_name.simps)
  have d: "ask_name (replicate k (Some []) @ []) = Unanswered"
    by (simp only: ask_name_empty_again ask_name.simps)
  from a b c d assms show ?thesis
    by (simp only: end_method_manager ask_name_empty_again simp_thms)
qed

theorem recorded_name_nonempty_witness:
  "list_all (\<lambda>r. name r \<noteq> []) (high_scores (manager (example_running\<lparr>test_ended := True\<rparr>)))
   \<and> list_all (\<lambda>r. name r \<noteq> [])
       (high_scores (manager (snd (end_record example_env 4 50
          (example_running\<lparr>test_ended := True\<rparr>)))))
   \<and> manager (snd (end_record example_env 4 50 (example_running\<lparr>test_ended := True\<rparr>)))
       = add_score ''2024-05-01'' True (str ''Ann'') 4 50 empty_manager"
proof -
  have h: "list_all (\<lambda>r. name r \<noteq> [])
             (high_scores (manager (example_running\<lparr>test_ended := True\<rparr>)))"
    by (simp add: example_running_manager empty_manager_def)
  have fields: "today_str example_env = ''2024-05-01''" "writable_file example_env = True"
    by (simp_all add: example_env_def)
  have m: "manager (example_running\<lparr>test_ended := True\<rparr>) = empty_manager"
    by (simp add: example_running_manager)
  note r = recorded_name_nonempty
    [OF h, of example_env 4 50 0 "[]", unfolded example_answer prompt_result.case fields m]
  from h r show ?thesis
    by blast
qed

end
